theory Spec2Isabelle
  imports Complex_Main
begin

section \<open>The objective functions and the mock data of the linear-regression notebook\<close>

text \<open>
  The notebook defines six Python functions: \<open>gen_mock_data\<close>, \<open>loss\<close>, \<open>chi2\<close>,
  \<open>negloglike\<close>, \<open>neglogprior\<close> and \<open>neglogpost\<close>. NumPy arrays of float64 are
  modelled as \<^typ>\<open>real list\<close>: the reals idealise float64 (no rounding, no overflow,
  no inf or nan). An outcome that is not a real number is a value of the type
  \<open>failure\<close>, and every function returns \<open>failure + result\<close>; \<open>gen_mock_data\<close>,
  which builds and uses a generator object, also returns the store of objects it
  leaves behind. The bodies of \<open>loss\<close>, \<open>chi2\<close>, \<open>negloglike\<close> and \<open>neglogprior\<close> are
  exercise blanks (\<open>...\<close>) in the notebook; each blank is a definition of its own,
  marked as modelled from the spec, and the lines the notebook does have are modelled
  from the notebook.
\<close>

subsection \<open>Outcomes that are not numbers\<close>

datatype failure =
    ValueError   \<comment> \<open>Python/NumPy \<open>ValueError\<close>: bad unpacking, bad seed, negative size or scale\<close>
  | IndexError   \<comment> \<open>Python \<open>IndexError\<close>: list index out of range\<close>
  | DomainError  \<comment> \<open>the spec's domain error for malformed input\<close>
  | NotFinite    \<comment> \<open>no exception, but the float result is inf or nan\<close>

subsection \<open>Array arithmetic shared by the objectives\<close>

text \<open>\<open>ypred = m * x + b\<close> with scalars \<open>m\<close>, \<open>b\<close> and the array \<open>x\<close>.\<close>

definition line :: "real \<Rightarrow> real \<Rightarrow> real list \<Rightarrow> real list" where
  "line m b x = map (\<lambda>xi. m * xi + b) x"

text \<open>
  Modelled from the spec: the blank \<open>resid = ...\<close> of \<open>loss\<close>, \<open>chi2\<close> and \<open>negloglike\<close>.
  The spec's residual is \<open>y_i - (m * x_i + b)\<close>, and sequences of different length are
  a domain error.
\<close>

definition residuals :: "real list \<Rightarrow> real list \<Rightarrow> failure + real list" where
  "residuals y ypred =
     (if length y \<noteq> length ypred then Inl DomainError
      else Inr (map2 (\<lambda>yi pi. yi - pi) y ypred))"

subsection \<open>The loss function\<close>

text \<open>
  The power \<open>a ** p\<close> of a non-negative float: \<open>0 ** 0 = 1\<close>, \<open>0 ** p = 0\<close> for positive
  \<open>p\<close>. (\<open>0 ** p\<close> for negative \<open>p\<close> is inf; \<open>loss_return\<close> reports it before any power
  is taken.)
\<close>

definition float_pow :: "real \<Rightarrow> real \<Rightarrow> real" where
  "float_pow a p = (if a = 0 then (if p = 0 then 1 else 0) else a powr p)"

text \<open>
  Modelled from the spec: the blank \<open>return ...\<close> of \<open>loss\<close>, the sum of
  \<open>|residual_i| ** p\<close>.
\<close>

definition loss_return :: "real list \<Rightarrow> real \<Rightarrow> failure + real" where
  "loss_return resid p =
     (if p < 0 \<and> 0 \<in> set resid then Inl NotFinite
      else Inr (sum_list (map (\<lambda>r. float_pow \<bar>r\<bar> p) resid)))"

text \<open>
  \<^verbatim>\<open>def loss(theta, p=2., x=x, y=y):
    m, b = theta
    ypred = m * x + b
    resid = ...
    return ...\<close>
\<close>

definition loss :: "real list \<Rightarrow> real \<Rightarrow> real list \<Rightarrow> real list \<Rightarrow> failure + real" where
  "loss theta p x y =
     (case theta of
        [m, b] \<Rightarrow>
          (let ypred = line m b x in
           case residuals y ypred of
             Inl e \<Rightarrow> Inl e
           | Inr resid \<Rightarrow> loss_return resid p)
      | _ \<Rightarrow> Inl ValueError)"

subsection \<open>Chi-square\<close>

text \<open>
  Modelled from the spec: the blank \<open>return ...\<close> of \<open>chi2\<close>, the sum of
  \<open>(residual_i / sigma_i) ** 2\<close>; a sequence of another length or a non-positive
  \<open>sigma_i\<close> is a domain error.
\<close>

definition chi2_return :: "real list \<Rightarrow> real list \<Rightarrow> failure + real" where
  "chi2_return resid ye =
     (if length ye \<noteq> length resid \<or> (\<exists>\<sigma>\<in>set ye. \<sigma> \<le> 0) then Inl DomainError
      else Inr (sum_list (map2 (\<lambda>r \<sigma>. (r / \<sigma>)\<^sup>2) resid ye)))"

text \<open>
  \<^verbatim>\<open>def chi2(theta, x=x, y=y, ye=ye):
    m, b = theta
    ypred = m * x + b
    resid = ...
    return ...\<close>
\<close>

definition chi2 :: "real list \<Rightarrow> real list \<Rightarrow> real list \<Rightarrow> real list \<Rightarrow> failure + real" where
  "chi2 theta x y ye =
     (case theta of
        [m, b] \<Rightarrow>
          (let ypred = line m b x in
           case residuals y ypred of
             Inl e \<Rightarrow> Inl e
           | Inr resid \<Rightarrow> chi2_return resid ye)
      | _ \<Rightarrow> Inl ValueError)"

subsection \<open>Negative log-likelihood\<close>

text \<open>
  Modelled from the spec: the per-point variance \<open>v_i = sigma_i\<^sup>2 + s\<^sup>2\<close> that the
  blank \<open>logl = ...\<close> of \<open>negloglike\<close> divides by.
\<close>

definition variances :: "real list \<Rightarrow> real \<Rightarrow> real list" where
  "variances ye s = map (\<lambda>\<sigma>. \<sigma>\<^sup>2 + s\<^sup>2) ye"

text \<open>
  Modelled from the spec: the blank \<open>logl = ...\<close> of \<open>negloglike\<close>. The function
  returns \<open>-logl\<close> and the spec gives its value as half the sum of
  \<open>residual_i\<^sup>2 / v_i + ln (2 pi v_i)\<close>, so \<open>logl\<close> is minus that; a sequence of another
  length or a variance that is not positive is a domain error.
\<close>

definition negloglike_logl :: "real list \<Rightarrow> real list \<Rightarrow> real \<Rightarrow> failure + real" where
  "negloglike_logl resid ye s =
     (let v = variances ye s in
      if length ye \<noteq> length resid \<or> (\<exists>vi\<in>set v. vi \<le> 0) then Inl DomainError
      else Inr (- (1 / 2) * sum_list (map2 (\<lambda>r vi. r\<^sup>2 / vi + ln (2 * pi * vi)) resid v)))"

text \<open>
  \<^verbatim>\<open>def negloglike(theta, x=x, y=y, ye=ye):
    m, b, s = theta
    ypred = m * x + b
    resid = ...
    logl = ...
    return -logl\<close>
\<close>

definition negloglike :: "real list \<Rightarrow> real list \<Rightarrow> real list \<Rightarrow> real list \<Rightarrow> failure + real" where
  "negloglike theta x y ye =
     (case theta of
        [m, b, s] \<Rightarrow>
          (let ypred = line m b x in
           case residuals y ypred of
             Inl e \<Rightarrow> Inl e
           | Inr resid \<Rightarrow>
               (case negloglike_logl resid ye s of
                  Inl e \<Rightarrow> Inl e
                | Inr logl \<Rightarrow> Inr (- logl)))
      | _ \<Rightarrow> Inl ValueError)"

subsection \<open>Negative log-prior and negative log-posterior\<close>

text \<open>
  Modelled from the spec: the whole body of \<open>neglogprior\<close>, which the notebook leaves
  blank. The spec gives half the sum over the parameters of
  \<open>(theta_j - mean_j)\<^sup>2 / std_j\<^sup>2 + ln (2 pi std_j\<^sup>2)\<close>, requires \<open>std_j > 0\<close> and
  sequences of equal length.
\<close>

definition neglogprior :: "real list \<Rightarrow> real list \<Rightarrow> real list \<Rightarrow> failure + real" where
  "neglogprior theta mean std =
     (if length mean \<noteq> length theta \<or> length std \<noteq> length theta \<or> (\<exists>\<sigma>\<in>set std. \<sigma> \<le> 0)
      then Inl DomainError
      else Inr (1 / 2 * sum_list (map (\<lambda>(t, \<mu>, \<sigma>). (t - \<mu>)\<^sup>2 / \<sigma>\<^sup>2 + ln (2 * pi * \<sigma>\<^sup>2))
                                   (zip theta (zip mean std)))))"

text \<open>
  \<^verbatim>\<open>def neglogpost(theta, x=x, y=y, ye=ye, mean=prior_means, std=prior_stds):
    m, b, s = theta
    logp = -neglogprior(theta, mean=mean, std=std)
    logl = -negloglike(theta, x=x, y=y, ye=ye)
    return -(logl + logp)\<close>
  An exception of a callee propagates; the prior is evaluated first.
\<close>

definition neglogpost ::
  "real list \<Rightarrow> real list \<Rightarrow> real list \<Rightarrow> real list \<Rightarrow> real list \<Rightarrow> real list \<Rightarrow> failure + real" where
  "neglogpost theta x y ye mean std =
     (case theta of
        [m, b, s] \<Rightarrow>
          (case neglogprior theta mean std of
             Inl e \<Rightarrow> Inl e
           | Inr nlp \<Rightarrow>
               (let logp = - nlp in
                case negloglike theta x y ye of
                  Inl e \<Rightarrow> Inl e
                | Inr nll \<Rightarrow> (let logl = - nll in Inr (- (logl + logp)))))
      | _ \<Rightarrow> Inl ValueError)"

subsection \<open>The random number generator\<close>

text \<open>
  \<open>gen_mock_data\<close> draws from a \<open>numpy.random.RandomState\<close>. NumPy is not part of the
  notebook, so the generator is a parameter of the model: a state type \<open>'st\<close> and the
  four operations the notebook calls, each returning the values drawn and the next
  state of the generator object.
\<close>

record 'st random_ops =
  seeded :: "int \<Rightarrow> 'st"
  rand_draw :: "nat \<Rightarrow> 'st \<Rightarrow> real list \<times> 'st"
  normal_draw :: "real list \<Rightarrow> real list \<Rightarrow> 'st \<Rightarrow> real list \<times> 'st"
  uniform_draw :: "real \<Rightarrow> real \<Rightarrow> nat \<Rightarrow> 'st \<Rightarrow> real list \<times> 'st"

text \<open>
  What NumPy documents of the three distributions: \<open>rand(n)\<close> returns \<open>n\<close> samples of
  the interval \<open>[0, 1)\<close>; \<open>normal(loc, scale)\<close> returns one sample per element;
  \<open>uniform(low, high, n)\<close> returns \<open>n\<close> samples between \<open>low\<close> and \<open>high\<close>.
\<close>

definition numpy_contract :: "'st random_ops \<Rightarrow> bool" where
  "numpy_contract R \<longleftrightarrow>
     (\<forall>n st. length (fst (rand_draw R n st)) = n \<and>
              (\<forall>u\<in>set (fst (rand_draw R n st)). 0 \<le> u \<and> u < 1)) \<and>
     (\<forall>loc scale st. length scale = length loc \<longrightarrow>
              length (fst (normal_draw R loc scale st)) = length loc) \<and>
     (\<forall>lo hi n st. length (fst (uniform_draw R lo hi n st)) = n \<and>
              (lo \<le> hi \<longrightarrow> (\<forall>u\<in>set (fst (uniform_draw R lo hi n st)). lo \<le> u \<and> u \<le> hi)))"

subsection \<open>Generator objects\<close>

text \<open>
  A \<open>RandomState\<close> is a mutable object: every draw reads its state and writes the next
  one. The generator objects of the Python process live in a store: \<open>objects\<close> gives
  the state of the object at each address, and the addresses below \<open>allocated\<close> are
  those in use. NumPy's module-level generator, from which \<open>np.random.rand\<close> and its
  siblings draw, is one of the objects in use when the notebook runs.
\<close>

record 'st store =
  objects :: "nat \<Rightarrow> 'st"
  allocated :: nat

text \<open>
  \<open>np.random.RandomState(seed)\<close> builds a new object at a fresh address and returns
  the address; it raises \<open>ValueError\<close> unless \<open>0 \<le> seed < 2 ** 32\<close>.
\<close>

definition RandomState :: "'st random_ops \<Rightarrow> int \<Rightarrow> 'st store \<Rightarrow> (failure + nat) \<times> 'st store" where
  "RandomState R seed h =
     (if 0 \<le> seed \<and> seed < 2 ^ 32
      then (Inr (allocated h),
            h\<lparr>objects := (objects h)(allocated h := seeded R seed),
              allocated := Suc (allocated h)\<rparr>)
      else (Inl ValueError, h))"

text \<open>A method call that draws: it runs on the state of \<open>self\<close> and stores the next state.\<close>

definition draw ::
  "('st \<Rightarrow> real list \<times> 'st) \<Rightarrow> nat \<Rightarrow> 'st store \<Rightarrow> (failure + real list) \<times> 'st store" where
  "draw f self h =
     (case f (objects h self) of
        (v, st) \<Rightarrow> (Inr v, h\<lparr>objects := (objects h)(self := st)\<rparr>))"

text \<open>
  The methods as Python sees them: a negative size raises \<open>ValueError\<close>, and so does a
  negative scale of \<open>normal\<close>. \<open>normal\<close> is called with an array of scales and with one
  scalar scale, which NumPy checks and then broadcasts to the length of \<open>loc\<close>.
\<close>

definition rand ::
  "'st random_ops \<Rightarrow> nat \<Rightarrow> int \<Rightarrow> 'st store \<Rightarrow> (failure + real list) \<times> 'st store" where
  "rand R self n h =
     (if n < 0 then (Inl ValueError, h) else draw (rand_draw R (nat n)) self h)"

definition normal ::
  "'st random_ops \<Rightarrow> nat \<Rightarrow> real list \<Rightarrow> real list \<Rightarrow> 'st store \<Rightarrow>
     (failure + real list) \<times> 'st store" where
  "normal R self loc scale h =
     (if \<exists>\<sigma>\<in>set scale. \<sigma> < 0 then (Inl ValueError, h)
      else draw (normal_draw R loc scale) self h)"

definition normal_scalar ::
  "'st random_ops \<Rightarrow> nat \<Rightarrow> real list \<Rightarrow> real \<Rightarrow> 'st store \<Rightarrow>
     (failure + real list) \<times> 'st store" where
  "normal_scalar R self loc scale h =
     (if scale < 0 then (Inl ValueError, h)
      else draw (normal_draw R loc (replicate (length loc) scale)) self h)"

definition uniform ::
  "'st random_ops \<Rightarrow> nat \<Rightarrow> real \<Rightarrow> real \<Rightarrow> int \<Rightarrow> 'st store \<Rightarrow>
     (failure + real list) \<times> 'st store" where
  "uniform R self lo hi n h =
     (if n < 0 then (Inl ValueError, h) else draw (uniform_draw R lo hi (nat n)) self h)"

text \<open>\<open>xs[i]\<close> for a non-negative index \<open>i\<close>.\<close>

definition getitem :: "real list \<Rightarrow> nat \<Rightarrow> failure + real" where
  "getitem xs i = (if i < length xs then Inr (xs ! i) else Inl IndexError)"

subsection \<open>Mock data\<close>

text \<open>
  \<^verbatim>\<open>def gen_mock_data(seed=123, m=0.875, b=2.523, s=0.523, unc=[0.2, 0.6], N=50):
    rstate = np.random.RandomState(seed)
    x = np.sort(3. * rstate.rand(N))
    y_int = m * x + b
    y = rstate.normal(y_int, s)
    yerr = rstate.uniform(unc[0], unc[1], N)
    yobs = rstate.normal(y, yerr)
    return x, yobs, yerr\<close>
  The function runs in a store \<open>h\<close> and returns what Python returns (or the exception
  raised) together with the store it leaves behind.
\<close>

definition gen_mock_data ::
  "'st random_ops \<Rightarrow> int \<Rightarrow> real \<Rightarrow> real \<Rightarrow> real \<Rightarrow> real list \<Rightarrow> int \<Rightarrow> 'st store \<Rightarrow>
     (failure + real list \<times> real list \<times> real list) \<times> 'st store" where
  "gen_mock_data R seed m b s unc N h =
     (case RandomState R seed h of
        (Inl e, h) \<Rightarrow> (Inl e, h)
      | (Inr rstate, h) \<Rightarrow>
     (case rand R rstate N h of
        (Inl e, h) \<Rightarrow> (Inl e, h)
      | (Inr u, h) \<Rightarrow>
     (let x = sort (map (\<lambda>ui. 3 * ui) u);
          y_int = line m b x in
      case normal_scalar R rstate y_int s h of
        (Inl e, h) \<Rightarrow> (Inl e, h)
      | (Inr y, h) \<Rightarrow>
     (case getitem unc 0 of
        Inl e \<Rightarrow> (Inl e, h)
      | Inr lo \<Rightarrow>
     (case getitem unc 1 of
        Inl e \<Rightarrow> (Inl e, h)
      | Inr hi \<Rightarrow>
     (case uniform R rstate lo hi N h of
        (Inl e, h) \<Rightarrow> (Inl e, h)
      | (Inr yerr, h) \<Rightarrow>
     (case normal R rstate y yerr h of
        (Inl e, h) \<Rightarrow> (Inl e, h)
      | (Inr yobs, h) \<Rightarrow> (Inr (x, yobs, yerr), h))))))))"

text \<open>
  A small deterministic generator that meets \<open>numpy_contract\<close>: its state is a counter
  and its samples walk through the quarters of the interval. It instantiates the
  theorems about \<open>gen_mock_data\<close> at concrete arguments.
\<close>

definition counter_ops :: "nat random_ops" where
  "counter_ops =
     \<lparr> seeded = (\<lambda>seed. nat seed),
       rand_draw = (\<lambda>n st. (map (\<lambda>k. real ((st + k) mod 4) / 4) [0..<n], st + n)),
       normal_draw = (\<lambda>loc scale st.
          (map2 (\<lambda>l \<sigma>. l + \<sigma> * (real (st mod 3) - 1)) loc scale, st + length loc)),
       uniform_draw = (\<lambda>lo hi n st.
          (map (\<lambda>k. lo + (hi - lo) * (real ((st + k) mod 4) / 4)) [0..<n], st + n)) \<rparr>"

text \<open>
  The store of a process in which only the module-level generator exists, at address
  0, and a second one in which that generator has been used (its state differs).
\<close>

definition initial_store :: "nat store" where
  "initial_store = \<lparr>objects = (\<lambda>a. 0), allocated = 1\<rparr>"

definition used_store :: "nat store" where
  "used_store = \<lparr>objects = (\<lambda>a. 5), allocated = 1\<rparr>"

section \<open>Properties of the objectives\<close>

subsection \<open>Residuals and arities\<close>

lemma length_line: "length (line m b x) = length x"
  by (simp add: line_def)

lemma residuals_line:
  "length y = length x \<Longrightarrow>
     residuals y (line m b x) = Inr (map2 (\<lambda>yi xi. yi - (m * xi + b)) y x)"
  by (auto simp: residuals_def line_def zip_map2)

lemma residuals_length:
  "residuals y (line m b x) = Inr resid \<Longrightarrow> length resid = length x"
  by (auto simp: residuals_def line_def split: if_splits)

lemma residuals_cases:
  "residuals y ypred = Inl DomainError \<or> (\<exists>resid. residuals y ypred = Inr resid)"
  by (auto simp: residuals_def)

lemma negloglike_arity: "negloglike theta x y ye = Inr l \<Longrightarrow> \<exists>m b s. theta = [m, b, s]"
  by (auto simp: negloglike_def split: list.splits)

subsection \<open>The posterior is likelihood plus prior\<close>

text \<open>
  Claim C1. The negative log-posterior is the negative log-likelihood plus the negative
  log-prior: \<open>neglogpost\<close> returns a number exactly when both \<open>negloglike\<close> and
  \<open>neglogprior\<close> return one, and that number is the sum of theirs. The proof reads the
  body of \<open>neglogpost\<close> and the unpacking line of \<open>negloglike\<close> only, so the identity
  holds whatever the blank bodies compute.
\<close>

theorem neglogpost_is_sum:
  "neglogpost theta x y ye mean std = Inr v \<longleftrightarrow>
     (\<exists>l p. negloglike theta x y ye = Inr l \<and> neglogprior theta mean std = Inr p \<and> v = l + p)"
proof
  assume "neglogpost theta x y ye mean std = Inr v"
  then show "\<exists>l p. negloglike theta x y ye = Inr l \<and> neglogprior theta mean std = Inr p \<and> v = l + p"
    by (auto simp: neglogpost_def Let_def split: list.splits sum.splits)
next
  assume "\<exists>l p. negloglike theta x y ye = Inr l \<and> neglogprior theta mean std = Inr p \<and> v = l + p"
  then obtain l p where l: "negloglike theta x y ye = Inr l"
    and p: "neglogprior theta mean std = Inr p" and v: "v = l + p"
    by blast
  from negloglike_arity [OF l] obtain m b s where "theta = [m, b, s]"
    by blast
  with l p v show "neglogpost theta x y ye mean std = Inr v"
    by (simp add: neglogpost_def)
qed

text \<open>
  One data point on the line \<open>y = x\<close>, a prior centred on the parameters: the
  likelihood gives \<open>ln (2 pi) / 2\<close>, the prior \<open>3 ln (2 pi) / 2\<close>, the posterior their sum.
\<close>

theorem neglogpost_is_sum_witness:
  "neglogpost [1, 0, 0] [1] [1] [1] [1, 0, 0] [1, 1, 1] = Inr (2 * ln (2 * pi))"
proof -
  have l: "negloglike [1, 0, 0] [1] [1] [1] = Inr (ln (2 * pi) / 2)"
    by (simp add: negloglike_def negloglike_logl_def residuals_def line_def variances_def)
  have p: "neglogprior [1, 0, 0] [1, 0, 0] [1, 1, 1] = Inr (3 * ln (2 * pi) / 2)"
    by (simp add: neglogprior_def)
  have "\<exists>l p. negloglike [1, 0, 0] [1] [1] [1] = Inr l \<and>
          neglogprior [1, 0, 0] [1, 0, 0] [1, 1, 1] = Inr p \<and> 2 * ln (2 * pi) = l + p"
    by (rule exI [of _ "ln (2 * pi) / 2"], rule exI [of _ "3 * ln (2 * pi) / 2"]) (simp add: l p)
  then show ?thesis
    by (simp only: neglogpost_is_sum)
qed

subsection \<open>The value of the negative log-likelihood\<close>

text \<open>
  Claim C2. For \<open>theta = (m, b, s)\<close> and a dataset of three sequences of one length,
  \<open>negloglike\<close> returns half the sum over the observations of
  \<open>(y_i - (m x_i + b))\<^sup>2 / v_i + ln (2 pi v_i)\<close> with \<open>v_i = sigma_i\<^sup>2 + s\<^sup>2\<close>. The
  formula divides by \<open>v_i\<close>, so it is stated where every \<open>v_i\<close> is positive (any dataset
  with \<open>s \<noteq> 0\<close> or all \<open>sigma_i \<noteq> 0\<close>); the number of observations is arbitrary.
\<close>

theorem negloglike_formula:
  assumes "length y = length x" and "length ye = length x"
    and "\<forall>i<length x. 0 < (ye ! i)\<^sup>2 + s\<^sup>2"
  shows "negloglike [m, b, s] x y ye =
     Inr (1 / 2 * (\<Sum>i<length x. (y ! i - (m * x ! i + b))\<^sup>2 / ((ye ! i)\<^sup>2 + s\<^sup>2)
                                   + ln (2 * pi * ((ye ! i)\<^sup>2 + s\<^sup>2))))"
proof -
  have guard: "\<not> (\<exists>vi\<in>set (variances ye s). vi \<le> 0)"
    using assms by (auto simp: variances_def in_set_conv_nth not_le)
  have "negloglike [m, b, s] x y ye =
      Inr (1 / 2 * sum_list (map2 (\<lambda>r vi. r\<^sup>2 / vi + ln (2 * pi * vi))
             (map2 (\<lambda>yi xi. yi - (m * xi + b)) y x) (variances ye s)))"
    using assms(1,2) guard
    by (simp add: negloglike_def residuals_line Let_def negloglike_logl_def)
  also have "sum_list (map2 (\<lambda>r vi. r\<^sup>2 / vi + ln (2 * pi * vi))
             (map2 (\<lambda>yi xi. yi - (m * xi + b)) y x) (variances ye s)) =
      (\<Sum>i<length x. (y ! i - (m * x ! i + b))\<^sup>2 / ((ye ! i)\<^sup>2 + s\<^sup>2)
                                   + ln (2 * pi * ((ye ! i)\<^sup>2 + s\<^sup>2)))"
    using assms(1,2)
    by (simp add: sum_list_sum_nth atLeast0LessThan variances_def)
  finally show ?thesis .
qed

text \<open>Two observations on the line \<open>y = 2 x + 1\<close> with unit errors and no scatter.\<close>

theorem negloglike_formula_witness:
  "negloglike [2, 1, 0] [0, 1] [1, 3] [1, 1] = Inr (ln (2 * pi))"
  using negloglike_formula [of "[1, 3]" "[0, 1]" "[1, 1]" 0 2 1]
  by (simp add: lessThan_Suc eval_nat_numeral less_Suc_eq)

subsection \<open>Chi-square with a vanishing measurement error\<close>

text \<open>
  Claim C3. When some \<open>sigma_i\<close> is zero, \<open>chi2\<close> at \<open>theta = (m, b)\<close> ends in the
  domain error, whatever the other data are; it returns no number.
\<close>

theorem chi2_sigma_zero:
  "i < length ye \<Longrightarrow> ye ! i = 0 \<Longrightarrow> chi2 [m, b] x y ye = Inl DomainError"
proof -
  assume "i < length ye" and "ye ! i = 0"
  then have "\<exists>\<sigma>\<in>set ye. \<sigma> \<le> 0"
    by (metis nth_mem order_refl)
  then have "chi2_return resid ye = Inl DomainError" for resid
    by (simp add: chi2_return_def)
  then show ?thesis
    using residuals_cases [of y "line m b x"]
    by (auto simp: chi2_def)
qed

theorem chi2_sigma_zero_witness:
  "chi2 [1, 0] [1, 2] [1, 2] [1, 0] = Inl DomainError"
  using chi2_sigma_zero [of 1 "[1, 0]" 1 0 "[1, 2]" "[1, 2]"]
  by simp

subsection \<open>Chi-square with unit measurement errors\<close>

lemma float_pow_two: "float_pow \<bar>r\<bar> 2 = r\<^sup>2"
  by (simp add: float_pow_def)

text \<open>
  Claim C4. On a dataset whose measurement errors are all 1 (one per observation),
  \<open>chi2\<close> equals \<open>loss\<close> with \<open>p = 2\<close>, for every parameter vector: the same number, or
  the same failure when \<open>theta\<close> is not a pair or \<open>x\<close> and \<open>y\<close> differ in length.
\<close>

theorem chi2_unit_sigma:
  assumes "length ye = length x" and "\<forall>\<sigma>\<in>set ye. \<sigma> = 1"
  shows "chi2 theta x y ye = loss theta 2 x y"
proof -
  have ye: "ye = replicate (length x) 1"
    using assms replicate_length_same [of ye 1] by simp
  have "chi2_return resid ye = loss_return resid 2" if "length resid = length x" for resid
  proof -
    have "map2 (\<lambda>r \<sigma>. (r / \<sigma>)\<^sup>2) resid ye = map (\<lambda>r. float_pow \<bar>r\<bar> 2) resid"
      using that unfolding ye
      by (auto simp: list_eq_iff_nth_eq float_pow_two)
    then show ?thesis
      using that assms by (auto simp: chi2_return_def loss_return_def)
  qed
  then show ?thesis
    by (auto simp: chi2_def loss_def Let_def split: list.splits sum.splits
        dest!: residuals_length)
qed

text \<open>The residuals of the line \<open>y = 2 x + 1\<close> on these two points are 0 and 1.\<close>

theorem chi2_unit_sigma_witness:
  "chi2 [2, 1] [0, 1] [1, 4] [1, 1] = loss [2, 1] 2 [0, 1] [1, 4] \<and>
   loss [2, 1] 2 [0, 1] [1, 4] = Inr 1"
  using chi2_unit_sigma [of "[1, 1]" "[0, 1]" "[2, 1]" "[1, 4]"]
  by (simp add: loss_def loss_return_def residuals_def line_def float_pow_def)

subsection \<open>The sign of the intrinsic scatter\<close>

lemma negloglike_logl_neg_s: "negloglike_logl resid ye (- s) = negloglike_logl resid ye s"
  by (simp add: negloglike_logl_def variances_def)

lemma negloglike_neg_s: "negloglike [m, b, - s] x y ye = negloglike [m, b, s] x y ye"
  by (simp add: negloglike_def negloglike_logl_neg_s cong: sum.case_cong)

lemma neglogprior_Inr_lengths:
  "neglogprior theta mean std = Inr p \<Longrightarrow>
     length mean = length theta \<and> length std = length theta"
  by (auto simp: neglogprior_def split: if_splits)

lemma list3: "length xs = 3 \<Longrightarrow> \<exists>a b c. xs = [a, b, c]"
  by (auto simp: eval_nat_numeral length_Suc_conv)

lemma neglogprior_neg_s:
  assumes "neglogprior [m, b, s] mean std = Inr p"
  shows "neglogprior [m, b, - s] mean std = Inr (p + 2 * s * (mean ! 2) / (std ! 2)\<^sup>2)"
proof -
  from neglogprior_Inr_lengths [OF assms] obtain \<mu>1 \<mu>2 \<mu>3 \<sigma>1 \<sigma>2 \<sigma>3
    where ms: "mean = [\<mu>1, \<mu>2, \<mu>3]" "std = [\<sigma>1, \<sigma>2, \<sigma>3]"
    using list3 [of mean] list3 [of std] by auto
  from assms have pos: "0 < \<sigma>3"
    by (auto simp: neglogprior_def ms split: if_splits)
  have "(- s - \<mu>3)\<^sup>2 / \<sigma>3\<^sup>2 = (s - \<mu>3)\<^sup>2 / \<sigma>3\<^sup>2 + 4 * s * \<mu>3 / \<sigma>3\<^sup>2"
    using pos by (simp add: power2_eq_square field_simps)
  with assms show ?thesis
    by (auto simp: neglogprior_def ms split: if_splits)
qed

text \<open>
  Claim C5 says that \<open>negloglike\<close>, \<open>neglogprior\<close> and \<open>neglogpost\<close> are all unchanged
  when \<open>s\<close> is replaced by \<open>-s\<close>. The prior is Gaussian around \<open>mean_s\<close>, not around 0:
  with the notebook's prior (means 1, 3, 0.5 and standard deviations 0.25, 0.5, 0.15),
  at \<open>(m, b, s) = (1, 3, 0.5)\<close> the prior and the posterior both change.
\<close>

theorem scatter_sign_counterexample:
  "neglogprior [1, 3, - (1 / 2)] [1, 3, 1 / 2] [1 / 4, 1 / 2, 3 / 20]
     \<noteq> neglogprior [1, 3, 1 / 2] [1, 3, 1 / 2] [1 / 4, 1 / 2, 3 / 20] \<and>
   neglogpost [1, 3, - (1 / 2)] [0] [3] [1] [1, 3, 1 / 2] [1 / 4, 1 / 2, 3 / 20]
     \<noteq> neglogpost [1, 3, 1 / 2] [0] [3] [1] [1, 3, 1 / 2] [1 / 4, 1 / 2, 3 / 20]"
  by (simp add: neglogpost_def neglogprior_def negloglike_def negloglike_logl_def
      residuals_def line_def variances_def power2_eq_square)

text \<open>
  Claim C5, amended. \<open>negloglike\<close> is unchanged when \<open>s\<close> is replaced by \<open>-s\<close>.
  \<open>neglogprior\<close> and \<open>neglogpost\<close>, where they return a number, grow by
  \<open>2 s mean_s / std_s\<^sup>2\<close> (\<open>mean_s\<close>, \<open>std_s\<close>: the prior mean and standard deviation of
  \<open>s\<close>, the third entries), so they are unchanged exactly when \<open>s = 0\<close> or \<open>mean_s = 0\<close>.
\<close>

theorem scatter_sign:
  "negloglike [m, b, - s] x y ye = negloglike [m, b, s] x y ye \<and>
   (\<forall>p. neglogprior [m, b, s] mean std = Inr p \<longrightarrow>
        neglogprior [m, b, - s] mean std = Inr (p + 2 * s * (mean ! 2) / (std ! 2)\<^sup>2)) \<and>
   (\<forall>q. neglogpost [m, b, s] x y ye mean std = Inr q \<longrightarrow>
        neglogpost [m, b, - s] x y ye mean std = Inr (q + 2 * s * (mean ! 2) / (std ! 2)\<^sup>2))"
proof (intro conjI allI impI)
  show "negloglike [m, b, - s] x y ye = negloglike [m, b, s] x y ye"
    by (rule negloglike_neg_s)
next
  fix p assume "neglogprior [m, b, s] mean std = Inr p"
  then show "neglogprior [m, b, - s] mean std = Inr (p + 2 * s * (mean ! 2) / (std ! 2)\<^sup>2)"
    by (rule neglogprior_neg_s)
next
  fix q assume q: "neglogpost [m, b, s] x y ye mean std = Inr q"
  then obtain l p where l: "negloglike [m, b, s] x y ye = Inr l"
    and p: "neglogprior [m, b, s] mean std = Inr p" and "q = l + p"
    by (auto simp: neglogpost_def Let_def split: sum.splits)
  then show "neglogpost [m, b, - s] x y ye mean std = Inr (q + 2 * s * (mean ! 2) / (std ! 2)\<^sup>2)"
    using neglogprior_neg_s [OF p] negloglike_neg_s [of m b s x y ye]
    by (simp add: neglogpost_def)
qed

text \<open>
  At the input of the counterexample the prior returns a number \<open>p\<close>, and with \<open>-s\<close> it
  returns \<open>p + 200 / 9\<close>, which is \<open>2 * 0.5 * 0.5 / 0.15\<^sup>2\<close> more.
\<close>

theorem scatter_sign_witness:
  "\<exists>p. neglogprior [1, 3, 1 / 2] [1, 3, 1 / 2] [1 / 4, 1 / 2, 3 / 20] = Inr p \<and>
       neglogprior [1, 3, - (1 / 2)] [1, 3, 1 / 2] [1 / 4, 1 / 2, 3 / 20] = Inr (p + 200 / 9)"
proof -
  obtain p where p: "neglogprior [1, 3, 1 / 2] [1, 3, 1 / 2] [1 / 4, 1 / 2, 3 / 20] = Inr p"
    by (cases "neglogprior [1, 3, 1 / 2] [1, 3, 1 / 2] [1 / 4, 1 / 2, 3 / 20]")
      (simp_all add: neglogprior_def)
  from scatter_sign [of 1 3 "1 / 2" "[0]" "[3]" "[1]" "[1, 3, 1 / 2]" "[1 / 4, 1 / 2, 3 / 20]"] p
  have "neglogprior [1, 3, - (1 / 2)] [1, 3, 1 / 2] [1 / 4, 1 / 2, 3 / 20] =
      Inr (p + 2 * (1 / 2) * ([1, 3, 1 / 2] ! 2) / ([1 / 4, 1 / 2, 3 / 20] ! 2)\<^sup>2)"
    by blast
  then have "neglogprior [1, 3, - (1 / 2)] [1, 3, 1 / 2] [1 / 4, 1 / 2, 3 / 20] = Inr (p + 200 / 9)"
    by (simp add: power2_eq_square)
  with p show ?thesis
    by blast
qed

section \<open>Properties of the mock data\<close>

subsection \<open>The stand-in generator meets the contract\<close>

lemma unit_fraction: "0 \<le> real (k mod 4) / 4 \<and> real (k mod 4) / 4 < 1"
proof -
  have "k mod 4 < 4" by simp
  then have "real (k mod 4) < 4" by linarith
  then show ?thesis by simp
qed

lemma affine_bounds:
  fixes lo hi t :: real
  assumes "lo \<le> hi" and "0 \<le> t" and "t \<le> 1"
  shows "lo \<le> lo + (hi - lo) * t \<and> lo + (hi - lo) * t \<le> hi"
proof -
  have "0 \<le> (hi - lo) * t"
    using assms by simp
  moreover have "(hi - lo) * t \<le> (hi - lo) * 1"
    using assms by (intro mult_left_mono) simp_all
  ultimately show ?thesis by simp
qed

lemma counter_ops_contract: "numpy_contract counter_ops"
proof -
  have "lo \<le> lo + (hi - lo) * (real (k mod 4) / 4) \<and> lo + (hi - lo) * (real (k mod 4) / 4) \<le> hi"
    if "lo \<le> hi" for lo hi :: real and k
    using that unit_fraction [of k] by (intro affine_bounds) simp_all
  then show ?thesis
    unfolding numpy_contract_def counter_ops_def
    using unit_fraction by auto
qed

subsection \<open>What a successful call has done\<close>

lemma draw_Inr:
  "draw f self h = (Inr v, h') \<longleftrightarrow>
     (\<exists>st. f (objects h self) = (v, st) \<and> h' = h\<lparr>objects := (objects h)(self := st)\<rparr>)"
  by (auto simp: draw_def split: prod.splits)

lemma draw_returns: "\<exists>v h'. draw f self h = (Inr v, h')"
  by (simp add: draw_def split: prod.splits)

lemma rand_Inr:
  "rand R self n h = (Inr u, h') \<Longrightarrow> 0 \<le> n \<and> (\<exists>st st'. rand_draw R (nat n) st = (u, st'))"
  by (auto simp: rand_def draw_Inr split: if_splits)

lemma normal_scalar_Inr:
  "normal_scalar R self loc scale h = (Inr y, h') \<Longrightarrow>
     0 \<le> scale \<and> (\<exists>st st'. normal_draw R loc (replicate (length loc) scale) st = (y, st'))"
  by (auto simp: normal_scalar_def draw_Inr split: if_splits)

lemma uniform_Inr:
  "uniform R self lo hi n h = (Inr v, h') \<Longrightarrow>
     0 \<le> n \<and> (\<exists>st st'. uniform_draw R lo hi (nat n) st = (v, st'))"
  by (auto simp: uniform_def draw_Inr split: if_splits)

lemma normal_Inr:
  "normal R self loc scale h = (Inr y, h') \<Longrightarrow>
     (\<forall>\<sigma>\<in>set scale. 0 \<le> \<sigma>) \<and> (\<exists>st st'. normal_draw R loc scale st = (y, st'))"
  by (force simp: normal_def draw_Inr split: if_splits)

lemma getitem_Inr: "getitem xs i = Inr v \<longleftrightarrow> i < length xs \<and> v = xs ! i"
  by (auto simp: getitem_def)

lemma gen_mock_data_Inr:
  assumes "fst (gen_mock_data R seed m b s unc N h) = Inr (x, yobs, yerr)"
  shows "\<exists>rstate h0 u h1 y h2 lo hi h3 h4.
     RandomState R seed h = (Inr rstate, h0) \<and>
     rand R rstate N h0 = (Inr u, h1) \<and>
     x = sort (map (\<lambda>ui. 3 * ui) u) \<and>
     normal_scalar R rstate (line m b x) s h1 = (Inr y, h2) \<and>
     getitem unc 0 = Inr lo \<and> getitem unc 1 = Inr hi \<and>
     uniform R rstate lo hi N h2 = (Inr yerr, h3) \<and>
     normal R rstate y yerr h3 = (Inr yobs, h4)"
  using assms
  by (simp add: gen_mock_data_def Let_def split: sum.splits prod.splits)

subsection \<open>The contract, one operation at a time\<close>

lemma contract_rand:
  assumes "numpy_contract R" and "rand_draw R n st = (u, st')"
  shows "length u = n" and "\<forall>e\<in>set u. 0 \<le> e \<and> e < 1"
proof -
  from assms(1) have "length (fst (rand_draw R n st)) = n \<and>
      (\<forall>e\<in>set (fst (rand_draw R n st)). 0 \<le> e \<and> e < 1)"
    unfolding numpy_contract_def by blast
  with assms(2) show "length u = n" and "\<forall>e\<in>set u. 0 \<le> e \<and> e < 1"
    by simp_all
qed

lemma contract_normal:
  assumes "numpy_contract R" and "length scale = length loc"
    and "normal_draw R loc scale st = (y, st')"
  shows "length y = length loc"
proof -
  from assms(1,2) have "length (fst (normal_draw R loc scale st)) = length loc"
    unfolding numpy_contract_def by blast
  with assms(3) show ?thesis by simp
qed

lemma contract_uniform:
  assumes "numpy_contract R" and "uniform_draw R lo hi n st = (v, st')"
  shows "length v = n" and "lo \<le> hi \<Longrightarrow> \<forall>e\<in>set v. lo \<le> e \<and> e \<le> hi"
proof -
  from assms(1) have *: "length (fst (uniform_draw R lo hi n st)) = n \<and>
      (lo \<le> hi \<longrightarrow> (\<forall>e\<in>set (fst (uniform_draw R lo hi n st)). lo \<le> e \<and> e \<le> hi))"
    unfolding numpy_contract_def by blast
  from * assms(2) show "length v = n"
    by simp
  assume "lo \<le> hi"
  with * have "\<forall>e\<in>set (fst (uniform_draw R lo hi n st)). lo \<le> e \<and> e \<le> hi"
    by blast
  then show "\<forall>e\<in>set v. lo \<le> e \<and> e \<le> hi"
    by (simp add: assms(2))
qed

subsection \<open>Lengths\<close>

lemma gen_mock_data_shape:
  assumes R: "numpy_contract R"
    and ret: "fst (gen_mock_data R seed m b s unc N h) = Inr (x, yobs, yerr)"
  shows "length x = nat N \<and> length yobs = nat N \<and> length yerr = nat N"
proof -
  from gen_mock_data_Inr [OF ret] obtain rstate h0 u h1 y h2 lo hi h3 h4 where
    u: "rand R rstate N h0 = (Inr u, h1)" and x: "x = sort (map (\<lambda>ui. 3 * ui) u)"
    and y: "normal_scalar R rstate (line m b x) s h1 = (Inr y, h2)"
    and yerr: "uniform R rstate lo hi N h2 = (Inr yerr, h3)"
    and yobs: "normal R rstate y yerr h3 = (Inr yobs, h4)"
    by blast
  from rand_Inr [OF u] obtain st st' where "rand_draw R (nat N) st = (u, st')"
    by blast
  from contract_rand(1) [OF R this] x have lx: "length x = nat N"
    by simp
  from normal_scalar_Inr [OF y] obtain st st'
    where "normal_draw R (line m b x) (replicate (length (line m b x)) s) st = (y, st')"
    by blast
  from contract_normal [OF R _ this] lx have ly: "length y = nat N"
    by (simp add: length_line)
  from uniform_Inr [OF yerr] obtain st st' where "uniform_draw R lo hi (nat N) st = (yerr, st')"
    by blast
  from contract_uniform(1) [OF R this] have le: "length yerr = nat N" .
  from normal_Inr [OF yobs] obtain st st' where "normal_draw R y yerr st = (yobs, st')"
    by blast
  from contract_normal [OF R _ this] ly le have "length yobs = nat N"
    by simp
  with lx le show ?thesis by simp
qed

lemma gen_mock_data_returns:
  assumes R: "numpy_contract R"
    and seed: "0 \<le> seed" "seed < 2 ^ 32" and N: "0 \<le> N" and s: "0 \<le> s"
    and unc: "2 \<le> length unc" "0 \<le> unc ! 0" "unc ! 0 \<le> unc ! 1"
  shows "\<exists>x yobs yerr. fst (gen_mock_data R seed m b s unc N h) = Inr (x, yobs, yerr)"
proof -
  obtain rstate h0 where rstate: "RandomState R seed h = (Inr rstate, h0)"
    using seed by (simp add: RandomState_def)
  obtain u h1 where u: "rand R rstate N h0 = (Inr u, h1)"
    using N draw_returns [of "rand_draw R (nat N)" rstate h0] by (auto simp: rand_def)
  let ?x = "sort (map (\<lambda>ui. 3 * ui) u)"
  obtain y h2 where y: "normal_scalar R rstate (line m b ?x) s h1 = (Inr y, h2)"
    using s draw_returns [of "normal_draw R (line m b ?x) (replicate (length (line m b ?x)) s)"
        rstate h1]
    by (auto simp: normal_scalar_def)
  have lo: "getitem unc 0 = Inr (unc ! 0)" and hi: "getitem unc 1 = Inr (unc ! 1)"
    using unc(1) by (auto simp: getitem_def)
  obtain yerr h3 where yerr: "uniform R rstate (unc ! 0) (unc ! 1) N h2 = (Inr yerr, h3)"
    using N draw_returns [of "uniform_draw R (unc ! 0) (unc ! 1) (nat N)" rstate h2]
    by (auto simp: uniform_def)
  from uniform_Inr [OF yerr] obtain st st'
    where "uniform_draw R (unc ! 0) (unc ! 1) (nat N) st = (yerr, st')"
    by blast
  from contract_uniform(2) [OF R this unc(3)] unc(2) have "\<forall>\<sigma>\<in>set yerr. 0 \<le> \<sigma>"
    by fastforce
  then have "\<not> (\<exists>\<sigma>\<in>set yerr. \<sigma> < 0)"
    by (simp add: not_less)
  then obtain yobs h4 where yobs: "normal R rstate y yerr h3 = (Inr yobs, h4)"
    using draw_returns [of "normal_draw R y yerr" rstate h3] by (auto simp: normal_def)
  have "fst (gen_mock_data R seed m b s unc N h) = Inr (?x, yobs, yerr)"
    unfolding gen_mock_data_def Let_def
    by (simp only: rstate u y lo hi yerr yobs sum.case prod.case fst_conv)
  then show ?thesis by blast
qed

text \<open>
  Claim C7. With a generator that meets \<open>numpy_contract\<close>, for every seed NumPy accepts
  and every count \<open>N \<ge> 0\<close> (so every \<open>N \<ge> 1\<close>), \<open>gen_mock_data\<close> returns three
  sequences \<open>x\<close>, \<open>yobs\<close>, \<open>yerr\<close> of length exactly \<open>N\<close>. A call returns when the scatter
  \<open>s\<close> is not negative and \<open>unc\<close> holds two bounds \<open>0 \<le> unc[0] \<le> unc[1]\<close>, as the
  defaults do; NumPy raises on a negative scale.
\<close>

theorem gen_mock_data_lengths:
  assumes "numpy_contract R"
    and "0 \<le> seed" and "seed < 2 ^ 32" and "0 \<le> N" and "0 \<le> s"
    and "2 \<le> length unc" and "0 \<le> unc ! 0" and "unc ! 0 \<le> unc ! 1"
  shows "\<exists>x yobs yerr. fst (gen_mock_data R seed m b s unc N h) = Inr (x, yobs, yerr) \<and>
           length x = nat N \<and> length yobs = nat N \<and> length yerr = nat N"
proof -
  from gen_mock_data_returns [OF assms] obtain x yobs yerr
    where ret: "fst (gen_mock_data R seed m b s unc N h) = Inr (x, yobs, yerr)"
    by blast
  from gen_mock_data_shape [OF assms(1) ret] ret show ?thesis
    by blast
qed

text \<open>The default arguments of the notebook, with the stand-in generator.\<close>

theorem gen_mock_data_lengths_witness:
  "\<exists>x yobs yerr.
     fst (gen_mock_data counter_ops 123 (7 / 8) (2523 / 1000) (523 / 1000) [1 / 5, 3 / 5] 50 initial_store)
       = Inr (x, yobs, yerr) \<and>
     length x = 50 \<and> length yobs = 50 \<and> length yerr = 50"
  using gen_mock_data_lengths [OF counter_ops_contract, of 123 50 "523 / 1000" "[1 / 5, 3 / 5]"
      "7 / 8" "2523 / 1000" initial_store]
  by simp

subsection \<open>The abscissae\<close>

text \<open>
  Claim C8. Whenever \<open>gen_mock_data\<close> returns, its \<open>x\<close> is sorted in nondecreasing
  order and every \<open>x_i\<close> lies in \<open>[0, 3)\<close>: it is the sorted sequence of 3 times the
  draws of \<open>rand\<close>.
\<close>

theorem gen_mock_data_x_sorted:
  assumes R: "numpy_contract R"
    and ret: "fst (gen_mock_data R seed m b s unc N h) = Inr (x, yobs, yerr)"
  shows "sorted x \<and> (\<forall>e\<in>set x. 0 \<le> e \<and> e < 3)"
proof -
  from gen_mock_data_Inr [OF ret] obtain rstate h0 u h1 where
    u: "rand R rstate N h0 = (Inr u, h1)" and x: "x = sort (map (\<lambda>ui. 3 * ui) u)"
    by blast
  from rand_Inr [OF u] obtain st st' where "rand_draw R (nat N) st = (u, st')"
    by blast
  from contract_rand(2) [OF R this] have "\<forall>e\<in>set u. 0 \<le> 3 * e \<and> 3 * e < 3"
    by simp
  with x show ?thesis
    by auto
qed

theorem gen_mock_data_x_sorted_witness:
  "\<exists>x yobs yerr.
     fst (gen_mock_data counter_ops 123 (7 / 8) (2523 / 1000) (523 / 1000) [1 / 5, 3 / 5] 50 initial_store)
       = Inr (x, yobs, yerr) \<and> sorted x \<and> list_all (\<lambda>e. 0 \<le> e \<and> e < 3) x"
proof -
  obtain x yobs yerr where ret:
    "fst (gen_mock_data counter_ops 123 (7 / 8) (2523 / 1000) (523 / 1000) [1 / 5, 3 / 5] 50 initial_store)
       = Inr (x, yobs, yerr)"
    using gen_mock_data_returns [OF counter_ops_contract, of 123 50 "523 / 1000" "[1 / 5, 3 / 5]"
      "7 / 8" "2523 / 1000" initial_store]
    by auto
  from gen_mock_data_x_sorted [OF counter_ops_contract ret] ret show ?thesis
    by (auto simp: list_all_iff)
qed

subsection \<open>The measurement errors\<close>

lemma yerr_in_range:
  assumes R: "numpy_contract R"
    and ret: "fst (gen_mock_data R seed m b s unc N h) = Inr (x, yobs, yerr)"
    and unc: "unc = [lo, hi]" "lo \<le> hi"
  shows "\<forall>e\<in>set yerr. lo \<le> e \<and> e \<le> hi"
proof -
  from gen_mock_data_Inr [OF ret] obtain rstate lo' hi' h2 h3 where
    "getitem unc 0 = Inr lo'" "getitem unc 1 = Inr hi'"
    and yerr: "uniform R rstate lo' hi' N h2 = (Inr yerr, h3)"
    by blast
  with unc(1) have "uniform R rstate lo hi N h2 = (Inr yerr, h3)"
    by (simp add: getitem_Inr)
  from uniform_Inr [OF this] obtain st st' where "uniform_draw R lo hi (nat N) st = (yerr, st')"
    by blast
  from contract_uniform(2) [OF R this unc(2)] show ?thesis .
qed

text \<open>
  Claim C9. With \<open>unc = [lo, hi]\<close> and \<open>0 < lo \<le> hi\<close>, every measurement error that
  \<open>gen_mock_data\<close> returns lies in \<open>[lo, hi]\<close> and is positive, so both divisors of
  the objectives are positive on the returned data: \<open>sigma_i\<close> itself (\<open>chi2\<close>) and
  \<open>v_i = sigma_i\<^sup>2 + s'\<^sup>2\<close> for every scatter \<open>s'\<close> (\<open>negloglike\<close>). The default
  \<open>unc = [0.2, 0.6]\<close> is such a range.
\<close>

theorem gen_mock_data_yerr_bounds:
  assumes R: "numpy_contract R"
    and ret: "fst (gen_mock_data R seed m b s unc N h) = Inr (x, yobs, yerr)"
    and unc: "unc = [lo, hi]" "0 < lo" "lo \<le> hi"
  shows "\<forall>e\<in>set yerr. lo \<le> e \<and> e \<le> hi \<and> 0 < e \<and> (\<forall>s'. 0 < e\<^sup>2 + s'\<^sup>2)"
proof
  fix e assume "e \<in> set yerr"
  with yerr_in_range [OF R ret unc(1,3)] unc(2) have e: "lo \<le> e" "e \<le> hi" "0 < e"
    by auto
  then have "0 < e\<^sup>2 + s'\<^sup>2" for s'
    using zero_less_power [of e 2] zero_le_power2 [of s'] by linarith
  with e show "lo \<le> e \<and> e \<le> hi \<and> 0 < e \<and> (\<forall>s'. 0 < e\<^sup>2 + s'\<^sup>2)"
    by simp
qed

text \<open>The default range \<open>[0.2, 0.6]\<close> and the other default arguments.\<close>

theorem gen_mock_data_yerr_bounds_witness:
  "\<exists>x yobs yerr.
     fst (gen_mock_data counter_ops 123 (7 / 8) (2523 / 1000) (523 / 1000) [1 / 5, 3 / 5] 50 initial_store)
       = Inr (x, yobs, yerr) \<and> list_all (\<lambda>e. 1 / 5 \<le> e \<and> e \<le> 3 / 5 \<and> 0 < e) yerr"
proof -
  obtain x yobs yerr where ret:
    "fst (gen_mock_data counter_ops 123 (7 / 8) (2523 / 1000) (523 / 1000) [1 / 5, 3 / 5] 50 initial_store)
       = Inr (x, yobs, yerr)"
    using gen_mock_data_returns [OF counter_ops_contract, of 123 50 "523 / 1000" "[1 / 5, 3 / 5]"
      "7 / 8" "2523 / 1000" initial_store]
    by auto
  from gen_mock_data_yerr_bounds [OF counter_ops_contract ret, of "1 / 5" "3 / 5"] ret show ?thesis
    by (auto simp: list_all_iff)
qed

subsection \<open>Determinism and the module-level generator\<close>

text \<open>
  Claim C10. \<open>gen_mock_data\<close> is a function of its arguments and is isolated from the
  other generators of the process. What it returns is the same in every store: two
  calls with the same arguments return the same three sequences, whatever state the
  module-level generator (or any other object) is in. And a call changes no object that
  was in use before it: the module-level generator keeps its state. All draws come
  from the object built from \<open>seed\<close>, at a fresh address.
\<close>

theorem gen_mock_data_isolated:
  "fst (gen_mock_data R seed m b s unc N h) = fst (gen_mock_data R seed m b s unc N h') \<and>
   (\<forall>a<allocated h. objects (snd (gen_mock_data R seed m b s unc N h)) a = objects h a)"
proof
  show "fst (gen_mock_data R seed m b s unc N h) = fst (gen_mock_data R seed m b s unc N h')"
    by (simp add: gen_mock_data_def RandomState_def rand_def normal_def normal_scalar_def
        uniform_def draw_def Let_def split: prod.splits sum.splits)
next
  show "\<forall>a<allocated h. objects (snd (gen_mock_data R seed m b s unc N h)) a = objects h a"
    by (simp add: gen_mock_data_def RandomState_def rand_def normal_def normal_scalar_def
        uniform_def draw_def Let_def split: prod.splits sum.splits)
qed

text \<open>
  The model runs: two points from the stand-in generator seeded with 2, computed in
  the two stores. The module-level generator, at address 0, keeps its state.
\<close>

theorem gen_mock_data_isolated_witness:
  "fst (gen_mock_data counter_ops 2 1 0 0 [1, 2] 2 initial_store)
     = Inr ([3 / 2, 9 / 4], [3, 4], [3 / 2, 7 / 4]) \<and>
   fst (gen_mock_data counter_ops 2 1 0 0 [1, 2] 2 used_store)
     = Inr ([3 / 2, 9 / 4], [3, 4], [3 / 2, 7 / 4]) \<and>
   objects (snd (gen_mock_data counter_ops 2 1 0 0 [1, 2] 2 used_store)) 0 = 5"
proof -
  have "fst (gen_mock_data counter_ops 2 1 0 0 [1, 2] 2 initial_store)
      = Inr ([3 / 2, 9 / 4], [3, 4], [3 / 2, 7 / 4])"
    by (simp add: gen_mock_data_def RandomState_def rand_def normal_def normal_scalar_def
      uniform_def draw_def getitem_def counter_ops_def initial_store_def line_def Let_def
      upt_rec numeral_2_eq_2)
  with gen_mock_data_isolated [of counter_ops 2 1 0 0 "[1, 2]" 2 used_store initial_store]
  show ?thesis
    by (simp add: used_store_def)
qed

subsection \<open>The objectives on generated data\<close>

text \<open>
  On data that \<open>gen_mock_data\<close> returns for a range \<open>0 < lo \<le> hi\<close>, \<open>chi2\<close> and
  \<open>negloglike\<close> return a number for every parameter vector: the domain error of a
  vanishing divisor does not occur.
\<close>

lemma generated_data_objectives_defined:
  assumes R: "numpy_contract R"
    and ret: "fst (gen_mock_data R seed m b s unc N h) = Inr (x, yobs, yerr)"
    and unc: "unc = [lo, hi]" "0 < lo" "lo \<le> hi"
  shows "\<exists>v. chi2 [m', b'] x yobs yerr = Inr v"
    and "\<exists>v. negloglike [m', b', s'] x yobs yerr = Inr v"
proof -
  from gen_mock_data_shape [OF R ret]
  have len: "length yobs = length x" "length yerr = length x"
    by simp_all
  from yerr_in_range [OF R ret unc(1,3)] unc(2) have pos: "\<forall>e\<in>set yerr. 0 < e"
    by fastforce
  then have "\<not> (\<exists>\<sigma>\<in>set yerr. \<sigma> \<le> 0)"
    by (simp add: not_le)
  with len show "\<exists>v. chi2 [m', b'] x yobs yerr = Inr v"
    by (simp add: chi2_def residuals_line chi2_return_def)
  have "0 < e\<^sup>2 + s'\<^sup>2" if "e \<in> set yerr" for e
  proof -
    from pos that have "0 < e" by blast
    then show ?thesis
      using zero_less_power [of e 2] zero_le_power2 [of s'] by linarith
  qed
  then have "\<not> (\<exists>vi\<in>set (variances yerr s'). vi \<le> 0)"
    by (auto simp: variances_def not_le)
  with len show "\<exists>v. negloglike [m', b', s'] x yobs yerr = Inr v"
    by (cases "negloglike [m', b', s'] x yobs yerr")
      (simp_all add: negloglike_def residuals_line negloglike_logl_def Let_def)
qed

end
